theory Spec2Isabelle
  imports Complex_Main
begin

section \<open>JavaScript strings and the string operations the converter uses\<close>

text \<open>
  A JavaScript string is a sequence of UTF-16 code units, and every operation used by
  \<^verbatim>\<open>src/abcParser.js\<close> and the MIDI generator (\<^verbatim>\<open>trim\<close>, \<^verbatim>\<open>split\<close>,
  \<^verbatim>\<open>startsWith\<close>, \<^verbatim>\<open>substring\<close>, \<^verbatim>\<open>includes\<close>, regular expressions without the
  \<^verbatim>\<open>u\<close> flag) works on code units. A string is therefore a list of code units, each a
  natural number; \<open>str\<close> turns an ASCII literal into its code units.

  JavaScript numbers are IEEE doubles. A number read from a string of digits is the
  double nearest to the value of the digits, and \<^verbatim>\<open>Infinity\<close> when that value is too
  large: this is \<open>roundToDouble\<close> below. The numbers the converter computes itself (MIDI
  numbers, octaves, indices) are small integers, modelled by \<open>int\<close> and \<open>nat\<close>.
\<close>

type_synonym jsstring = "nat list"

definition str :: "string \<Rightarrow> jsstring" where
  "str s = map of_char s"

text \<open>White space and line terminators, as \<^verbatim>\<open>String.prototype.trim\<close> and the class \<^verbatim>\<open>\s\<close> see them.\<close>

definition isWhiteSpace :: "nat \<Rightarrow> bool" where
  "isWhiteSpace c = (c = 9 \<or> c = 10 \<or> c = 11 \<or> c = 12 \<or> c = 13 \<or> c = 32 \<or> c = 160
     \<or> c = 5760 \<or> (8192 \<le> c \<and> c \<le> 8202) \<or> c = 8232 \<or> c = 8233 \<or> c = 8239
     \<or> c = 8287 \<or> c = 12288 \<or> c = 65279)"

text \<open>Line terminators: the characters \<^verbatim>\<open>.\<close> does not match.\<close>

definition isLineTerminator :: "nat \<Rightarrow> bool" where
  "isLineTerminator c = (c = 10 \<or> c = 13 \<or> c = 8232 \<or> c = 8233)"

text \<open>The class \<^verbatim>\<open>\d\<close>.\<close>

definition isDigit :: "nat \<Rightarrow> bool" where
  "isDigit c = (48 \<le> c \<and> c \<le> 57)"

text \<open>The class \<^verbatim>\<open>[A-Ga-g]\<close>.\<close>

definition isNoteLetter :: "nat \<Rightarrow> bool" where
  "isNoteLetter c = ((65 \<le> c \<and> c \<le> 71) \<or> (97 \<le> c \<and> c \<le> 103))"

definition trim :: "jsstring \<Rightarrow> jsstring" where
  "trim s = rev (dropWhile isWhiteSpace (rev (dropWhile isWhiteSpace s)))"

text \<open>\<^verbatim>\<open>s.split(sep)\<close> for a one-character separator: always at least one piece.\<close>

fun split :: "nat \<Rightarrow> jsstring \<Rightarrow> jsstring list" where
  "split sep [] = [[]]"
| "split sep (c # cs) =
     (if c = sep then [] # split sep cs
      else (case split sep cs of [] \<Rightarrow> [[c]] | l # ls \<Rightarrow> (c # l) # ls))"

fun join :: "jsstring \<Rightarrow> jsstring list \<Rightarrow> jsstring" where
  "join sep [] = []"
| "join sep [x] = x"
| "join sep (x # y # ys) = x @ sep @ join sep (y # ys)"

definition startsWith :: "jsstring \<Rightarrow> jsstring \<Rightarrow> bool" where
  "startsWith s p = (take (length p) s = p)"

text \<open>\<^verbatim>\<open>s.includes(sub)\<close>.\<close>

fun includes_str :: "jsstring \<Rightarrow> jsstring \<Rightarrow> bool" where
  "includes_str [] sub = (sub = [])"
| "includes_str (c # cs) sub = (startsWith (c # cs) sub \<or> includes_str cs sub)"

text \<open>\<^verbatim>\<open>s.substring(n)\<close>.\<close>

definition substring :: "jsstring \<Rightarrow> nat \<Rightarrow> jsstring" where
  "substring s n = drop n s"

text \<open>The value of a string of decimal digits.\<close>

definition digitsValue :: "jsstring \<Rightarrow> nat" where
  "digitsValue ds = foldl (\<lambda>a c. 10 * a + (c - 48)) 0 ds"

text \<open>The number of binary digits of a natural number.\<close>

fun bitLength :: "nat \<Rightarrow> nat" where
  "bitLength n = (if n = 0 then 0 else Suc (bitLength (n div 2)))"

declare bitLength.simps [simp del]

text \<open>
  The double nearest to a natural number, ties going to the even significand; \<open>None\<close>
  is \<^verbatim>\<open>Infinity\<close>. Below \<open>2^53 = 9007199254740992\<close> every natural number is a double.
  From there on a double is a 53-bit significand \<open>q\<close> times \<open>2^e\<close>, the rest \<open>r\<close> of
  the division decides the rounding, and a result of \<open>2^1024\<close> or more is not finite.
\<close>

definition roundToDouble :: "nat \<Rightarrow> nat option" where
  "roundToDouble n =
     (if n < 9007199254740992 then Some n
      else let e = bitLength n - 53;
               q = n div 2 ^ e;
               r = n mod 2 ^ e;
               half = 2 ^ (e - 1);
               q' = (if r < half \<or> (r = half \<and> even q) then q else q + 1);
               v = q' * 2 ^ e
           in if v < 2 ^ 1024 then Some v else None)"

text \<open>
  \<^verbatim>\<open>parseInt(s)\<close> with no radix: leading white space is skipped, one sign is read, a
  \<^verbatim>\<open>0x\<close>/\<^verbatim>\<open>0X\<close> prefix switches to base 16, and the longest prefix of digits is
  converted to a double; with no digit the result is \<^verbatim>\<open>NaN\<close>.
\<close>

datatype jsnumber = NaN | Num int | PosInfinity | NegInfinity

definition isHexDigit :: "nat \<Rightarrow> bool" where
  "isHexDigit c = (isDigit c \<or> (65 \<le> c \<and> c \<le> 70) \<or> (97 \<le> c \<and> c \<le> 102))"

definition hexDigitValue :: "nat \<Rightarrow> nat" where
  "hexDigitValue c = (if isDigit c then c - 48 else if c \<le> 70 then c - 55 else c - 87)"

definition hexValue :: "jsstring \<Rightarrow> nat" where
  "hexValue ds = foldl (\<lambda>a c. 16 * a + hexDigitValue c) 0 ds"

definition parseDigits :: "jsstring \<Rightarrow> nat option" where
  "parseDigits s =
     (if startsWith s (str ''0x'') \<or> startsWith s (str ''0X'')
      then (case takeWhile isHexDigit (drop 2 s) of [] \<Rightarrow> None | z \<Rightarrow> Some (hexValue z))
      else (case takeWhile isDigit s of [] \<Rightarrow> None | z \<Rightarrow> Some (digitsValue z)))"

definition parseInt :: "jsstring \<Rightarrow> jsnumber" where
  "parseInt s =
     (let t = dropWhile isWhiteSpace s;
          negative = startsWith t (str ''-'');
          u = (if negative \<or> startsWith t (str ''+'') then drop 1 t else t)
      in case parseDigits u of
           None \<Rightarrow> NaN
         | Some v \<Rightarrow>
             (case roundToDouble v of
                None \<Rightarrow> if negative then NegInfinity else PosInfinity
              | Some w \<Rightarrow> Num (if negative then - int w else int w)))"

text \<open>
  \<^verbatim>\<open>parseFloat(s)\<close> for a string of decimal digits, the only strings the parser hands to
  it. The result is kept in a \<open>rat\<close>, the type of a note's duration, and
  \<^verbatim>\<open>Infinity\<close> is written as \<open>jsInfinity\<close>, the rational \<open>2^1024\<close>: no double has this
  value, and the two things the converter does with a duration, the test \<^verbatim>\<open><= 0\<close> and
  the lookup in the duration table, treat it as they treat \<^verbatim>\<open>Infinity\<close>.
\<close>

definition jsInfinity :: rat where
  "jsInfinity = 2 ^ 1024"

definition parseFloat :: "jsstring \<Rightarrow> rat" where
  "parseFloat ds =
     (case roundToDouble (digitsValue ds) of None \<Rightarrow> jsInfinity | Some v \<Rightarrow> of_nat v)"

section \<open>The ABC parser (\<^verbatim>\<open>src/abcParser.js\<close>)\<close>

record Header =
  title :: jsstring
  key :: jsstring
  meter :: jsstring
  tempo :: jsnumber
  lineCount :: nat
  number :: "jsnumber option"
  defaultLength :: "jsstring option"

record Note =
  "note" :: jsstring
  midiNote :: int
  duration :: rat
  accidental :: jsstring
  octave :: int

record Metadata =
  comments :: "jsstring list"
  barCount :: nat

record ParsedMusic =
  header :: Header
  body :: "Note list"
  metadata :: Metadata

record 'e ValidationResult =
  isValid :: bool
  errors :: "'e list"

subsection \<open>\<^verbatim>\<open>parseTempo\<close>\<close>

text \<open>
  \<^verbatim>\<open>tempoString.match(/(\d+)\/(\d+)=(\d+)/)\<close>: \<open>tempoMatchAt\<close> tries the pattern at the
  start of its argument and returns the third group; \<open>tempoMatch\<close> looks for the
  leftmost position where it matches. Each \<^verbatim>\<open>\d+\<close> is greedy, and giving digits back
  never helps, since the next pattern character is not a digit.
\<close>

definition tempoMatchAt :: "jsstring \<Rightarrow> jsstring option" where
  "tempoMatchAt s =
     (let g1 = takeWhile isDigit s; r1 = dropWhile isDigit s in
      if g1 = [] \<or> \<not> startsWith r1 (str ''/'') then None
      else let g2 = takeWhile isDigit (drop 1 r1); r2 = dropWhile isDigit (drop 1 r1) in
        if g2 = [] \<or> \<not> startsWith r2 (str ''='') then None
        else let g3 = takeWhile isDigit (drop 1 r2) in
          if g3 = [] then None else Some g3)"

fun tempoMatch :: "jsstring \<Rightarrow> jsstring option" where
  "tempoMatch [] = None"
| "tempoMatch (c # cs) =
     (case tempoMatchAt (c # cs) of Some g \<Rightarrow> Some g | None \<Rightarrow> tempoMatch cs)"

definition parseTempo :: "jsstring \<Rightarrow> jsnumber" where
  "parseTempo tempoString =
     (case tempoMatch tempoString of
        Some g3 \<Rightarrow> parseInt g3
      | None \<Rightarrow> (let num = parseInt tempoString in if num = NaN then Num 120 else num))"

subsection \<open>\<^verbatim>\<open>parseHeader\<close>\<close>

definition initialHeader :: Header where
  "initialHeader = \<lparr>title = str ''Untitled'', key = str ''C'', meter = str ''4/4'',
     tempo = Num 120, lineCount = 0, number = None, defaultLength = None\<rparr>"

text \<open>
  The \<^verbatim>\<open>for\<close> loop of \<^verbatim>\<open>parseHeader\<close>: \<open>i\<close> is the loop index, the list holds
  \<^verbatim>\<open>lines[i..]\<close>. The last branch is the \<^verbatim>\<open>break\<close>; leaving the loop at the end of
  the lines assigns nothing.
\<close>

fun headerLoop :: "nat \<Rightarrow> jsstring list \<Rightarrow> Header \<Rightarrow> Header" where
  "headerLoop i [] h = h"
| "headerLoop i (l # ls) h =
     (let line = trim l in
      if startsWith line (str ''X:'') then
        headerLoop (i + 1) ls (h\<lparr>number := Some (parseInt (substring line 2))\<rparr>)
      else if startsWith line (str ''T:'') then
        headerLoop (i + 1) ls (h\<lparr>title := substring line 2\<rparr>)
      else if startsWith line (str ''K:'') then
        headerLoop (i + 1) ls (h\<lparr>key := substring line 2\<rparr>)
      else if startsWith line (str ''M:'') then
        headerLoop (i + 1) ls (h\<lparr>meter := substring line 2\<rparr>)
      else if startsWith line (str ''Q:'') then
        headerLoop (i + 1) ls (h\<lparr>tempo := parseTempo (substring line 2)\<rparr>)
      else if startsWith line (str ''L:'') then
        headerLoop (i + 1) ls (h\<lparr>defaultLength := Some (substring line 2)\<rparr>)
      else if line = [] \<or> startsWith line (str ''V:'') \<or> startsWith line (str ''I:'') then
        headerLoop (i + 1) ls h
      else h\<lparr>lineCount := i\<rparr>)"

definition parseHeader :: "jsstring list \<Rightarrow> Header" where
  "parseHeader lines = headerLoop 0 lines initialHeader"

subsection \<open>\<^verbatim>\<open>parseBody\<close>\<close>

text \<open>
  The note pattern is \<^verbatim>\<open>/([A-Ga-g])([^,']*)([,']*)(\d*)/g\<close>. Its second group is a
  negated class: it takes every code unit that is neither a comma nor an apostrophe.
  All three starred groups are greedy and may be empty, so the first attempt at a note
  letter always succeeds and nothing is given back.
\<close>

definition isOctaveMark :: "nat \<Rightarrow> bool" where
  "isOctaveMark c = (c = 44 \<or> c = 39)"

type_synonym noteMatch = "nat \<times> jsstring \<times> jsstring \<times> jsstring"

text \<open>
  The \<^verbatim>\<open>while ((match = notePattern.exec(bodyText)) !== null)\<close> loop: the search moves
  right to the next note letter, the match is taken there, and the next search starts
  where the match ended.
\<close>

function notePatternExec :: "jsstring \<Rightarrow> noteMatch list" where
  "notePatternExec [] = []"
| "notePatternExec (c # cs) =
     (if isNoteLetter c then
        (c,
         takeWhile (\<lambda>x. \<not> isOctaveMark x) cs,
         takeWhile isOctaveMark (dropWhile (\<lambda>x. \<not> isOctaveMark x) cs),
         takeWhile isDigit (dropWhile isOctaveMark (dropWhile (\<lambda>x. \<not> isOctaveMark x) cs)))
        # notePatternExec
            (dropWhile isDigit (dropWhile isOctaveMark (dropWhile (\<lambda>x. \<not> isOctaveMark x) cs)))
      else notePatternExec cs)"
  by pat_completeness auto
termination
proof (relation "measure length")
  fix c :: nat and cs :: jsstring
  have "length (dropWhile isDigit (dropWhile isOctaveMark (dropWhile (\<lambda>x. \<not> isOctaveMark x) cs)))
        \<le> length (dropWhile isOctaveMark (dropWhile (\<lambda>x. \<not> isOctaveMark x) cs))"
    by (rule length_dropWhile_le)
  also have "\<dots> \<le> length (dropWhile (\<lambda>x. \<not> isOctaveMark x) cs)"
    by (rule length_dropWhile_le)
  also have "\<dots> \<le> length cs"
    by (rule length_dropWhile_le)
  finally show "(dropWhile isDigit (dropWhile isOctaveMark (dropWhile (\<lambda>x. \<not> isOctaveMark x) cs)),
                 c # cs) \<in> measure length"
    by simp
qed simp_all

definition noteToMidi :: "(nat \<times> int) list" where
  "noteToMidi = [(67, 60), (68, 62), (69, 64), (70, 65), (71, 67), (65, 69), (66, 71),
                 (99, 72), (100, 74), (101, 76), (102, 77), (103, 79), (97, 81), (98, 83)]"

text \<open>\<^verbatim>\<open>toUpperCase\<close>, on the code units it is applied to (a note letter).\<close>

definition toUpperCase :: "nat \<Rightarrow> nat" where
  "toUpperCase c = (if 97 \<le> c \<and> c \<le> 122 then c - 32 else c)"

text \<open>
  The body of the loop. \<^verbatim>\<open>octave.split("'").length - 1\<close> is the number of
  apostrophes in \<open>oct\<close>, and likewise for commas. \<^verbatim>\<open>duration ? parseFloat(duration) : 1\<close>
  tests the captured string, and every non-empty string is truthy.
\<close>

definition noteOfMatch :: "noteMatch \<Rightarrow> Note" where
  "noteOfMatch m =
     (case m of (letter, acc, oct, dur) \<Rightarrow>
        let s1 = (if 94 \<in> set acc then 0 + 1 else 0);
            s2 = (if 95 \<in> set acc then s1 - 1 else s1);
            semitoneOffset = (if 61 \<in> set acc then 0 else s2);
            o1 = (if 39 \<in> set oct then 0 + int (count_list oct 39) else 0);
            octaveOffset = (if 44 \<in> set oct then o1 - int (count_list oct 44) else o1);
            baseNote = (case map_of noteToMidi letter of
                          None \<Rightarrow> 60
                        | Some b \<Rightarrow> if b = 0 then 60 else b);
            noteDuration = (if dur \<noteq> [] then parseFloat dur else 1)
        in \<lparr>note = [toUpperCase letter],
            midiNote = baseNote + semitoneOffset + octaveOffset * 12,
            duration = noteDuration,
            accidental = acc,
            octave = 4 + octaveOffset\<rparr>)"

definition parseBody :: "jsstring list \<Rightarrow> Note list" where
  "parseBody lines = map noteOfMatch (notePatternExec (join (str '' '') lines))"

subsection \<open>\<^verbatim>\<open>extractMetadata\<close>\<close>

text \<open>
  \<^verbatim>\<open>/%.*$/gm\<close>: each match starts at a percent sign and runs to the next line
  terminator or the end of the text.
\<close>

function commentMatches :: "jsstring \<Rightarrow> jsstring list" where
  "commentMatches [] = []"
| "commentMatches (c # cs) =
     (if c = 37 then
        (c # takeWhile (\<lambda>x. \<not> isLineTerminator x) cs)
        # commentMatches (dropWhile (\<lambda>x. \<not> isLineTerminator x) cs)
      else commentMatches cs)"
  by pat_completeness auto
termination
proof (relation "measure length")
  fix c :: nat and cs :: jsstring
  have "length (dropWhile (\<lambda>x. \<not> isLineTerminator x) cs) \<le> length cs"
    by (rule length_dropWhile_le)
  then show "(dropWhile (\<lambda>x. \<not> isLineTerminator x) cs, c # cs) \<in> measure length"
    by simp
qed simp_all

definition extractMetadata :: "jsstring \<Rightarrow> Metadata" where
  "extractMetadata abcString =
     \<lparr>comments = map (\<lambda>c. trim (substring c 1)) (commentMatches abcString),
      barCount = count_list abcString 124\<rparr>"

subsection \<open>\<^verbatim>\<open>parse\<close>\<close>

definition parse :: "jsstring \<Rightarrow> ParsedMusic" where
  "parse abcString =
     (let lines = split 10 (trim abcString);
          hdr = parseHeader lines;
          notes = parseBody (drop (lineCount hdr) lines)
      in \<lparr>header = hdr, body = notes, metadata = extractMetadata abcString\<rparr>)"

subsection \<open>\<^verbatim>\<open>validate\<close>\<close>

text \<open>The five messages; the accented letters are single code units (225, 237, 243).\<close>

definition msgEmpty :: jsstring where
  "msgEmpty = str ''La notaci'' @ [243] @ str ''n ABC no puede estar vac'' @ [237] @ str ''a''"

definition msgNoNotes :: jsstring where
  "msgNoNotes = str ''No se encontraron notas v'' @ [225] @ str ''lidas (A-G, a-g)''"

definition msgMissingKey :: jsstring where
  "msgMissingKey = str ''Falta la clave (K:)''"

definition msgMissingMeter :: jsstring where
  "msgMissingMeter = str ''Falta el comp'' @ [225] @ str ''s (M:)''"

definition msgInvalidChars :: jsstring where
  "msgInvalidChars = str ''Caracteres inv'' @ [225] @ str ''lidos en las notas: ''"

text \<open>The complement of the class \<^verbatim>\<open>[^A-Ga-g\s,.'^_=\d|\[\](){}]\<close> is what is allowed.\<close>

definition isAllowedChar :: "nat \<Rightarrow> bool" where
  "isAllowedChar c = (isNoteLetter c \<or> isWhiteSpace c \<or> c = 44 \<or> c = 46 \<or> c = 39
     \<or> c = 94 \<or> c = 95 \<or> c = 61 \<or> isDigit c \<or> c = 124 \<or> c = 91 \<or> c = 93
     \<or> c = 40 \<or> c = 41 \<or> c = 123 \<or> c = 125)"

text \<open>\<^verbatim>\<open>[...new Set(xs)]\<close>: the distinct elements, in the order of their first occurrence.\<close>

definition newSet :: "'a list \<Rightarrow> 'a list" where
  "newSet xs = foldl (\<lambda>seen x. if x \<in> set seen then seen else seen @ [x]) [] xs"

text \<open>The lines kept by the \<^verbatim>\<open>filter\<close> of \<^verbatim>\<open>validate\<close>; the test is on the untrimmed line.\<close>

definition isNoteSectionLine :: "jsstring \<Rightarrow> bool" where
  "isNoteSectionLine line =
     (\<not> startsWith line (str ''X:'') \<and> \<not> startsWith line (str ''T:'')
      \<and> \<not> startsWith line (str ''C:'') \<and> \<not> startsWith line (str ''M:'')
      \<and> \<not> startsWith line (str ''L:'') \<and> \<not> startsWith line (str ''K:'')
      \<and> \<not> startsWith line (str ''Q:'') \<and> trim line \<noteq> [])"

definition noteSection :: "jsstring \<Rightarrow> jsstring" where
  "noteSection abcString = join (str '' '') (filter isNoteSectionLine (split 10 abcString))"

definition validate :: "jsstring \<Rightarrow> jsstring ValidationResult" where
  "validate abcString =
     (if abcString = [] \<or> length (trim abcString) = 0 then
        \<lparr>isValid = False, errors = [msgEmpty]\<rparr>
      else
        let e1 = (if \<not> list_ex isNoteLetter abcString then [msgNoNotes] else []);
            e2 = (if \<not> includes_str abcString (str ''K:'') then e1 @ [msgMissingKey] else e1);
            e3 = (if \<not> includes_str abcString (str ''M:'') then e2 @ [msgMissingMeter] else e2);
            sectionText = noteSection abcString;
            e4 = (if sectionText \<noteq> [] then
                    (case filter (\<lambda>c. \<not> isAllowedChar c) sectionText of
                       [] \<Rightarrow> e3
                     | invalidChars \<Rightarrow>
                         e3 @ [msgInvalidChars
                               @ join (str '', '') (map (\<lambda>c. [c]) (newSet invalidChars))])
                  else e3)
        in \<lparr>isValid = (length e4 = 0), errors = e4\<rparr>)"

section \<open>The MIDI generator\<close>

text \<open>
  \<^verbatim>\<open>durationToTicks\<close>: an object keyed by numbers. Its keys are the strings of those
  numbers, and two finite numbers have the same string only if they are equal, so the
  lookup is by the value of the duration.
\<close>

definition durationToTicks :: "(rat \<times> jsstring) list" where
  "durationToTicks = [(1/4, str ''T32''), (1/2, str ''T16''), (1, str ''T8''),
                      (2, str ''T4''), (4, str ''T2''), (8, str ''T1'')]"

text \<open>\<^verbatim>\<open>this.durationToTicks[d] || 'T8'\<close>: a missing key and an empty string both give \<^verbatim>\<open>'T8'\<close>.\<close>

definition ticksOf :: "rat \<Rightarrow> jsstring" where
  "ticksOf d = (case map_of durationToTicks d of
                  None \<Rightarrow> str ''T8''
                | Some t \<Rightarrow> if t = [] then str ''T8'' else t)"

definition noteNames :: "jsstring list" where
  "noteNames = [str ''C'', str ''C#'', str ''D'', str ''D#'', str ''E'', str ''F'',
                str ''F#'', str ''G'', str ''G#'', str ''A'', str ''A#'', str ''B'']"

text \<open>
  The remainder operator \<^verbatim>\<open>%\<close> takes the sign of the dividend. For a negative
  multiple of the divisor it gives \<^verbatim>\<open>-0\<close>, which as an array index is the property
  key \<^verbatim>\<open>"0"\<close>, the same as \<open>0\<close>.
\<close>

definition jsRem :: "int \<Rightarrow> int \<Rightarrow> int" where
  "jsRem a b = sgn a * (\<bar>a\<bar> mod \<bar>b\<bar>)"

text \<open>\<^verbatim>\<open>xs[i]\<close> for an integer \<open>i\<close>: \<open>None\<close> is \<^verbatim>\<open>undefined\<close>.\<close>

definition arrayGet :: "'a list \<Rightarrow> int \<Rightarrow> 'a option" where
  "arrayGet xs i = (if 0 \<le> i \<and> i < int (length xs) then Some (xs ! nat i) else None)"

text \<open>The decimal string of an integer, as string concatenation produces it.\<close>

function showNat :: "nat \<Rightarrow> jsstring" where
  "showNat n = (if n < 10 then [48 + n] else showNat (n div 10) @ [48 + n mod 10])"
  by pat_completeness auto
termination
  by (relation "measure (\<lambda>n. n)") auto

declare showNat.simps [simp del]

definition showInt :: "int \<Rightarrow> jsstring" where
  "showInt i = (if i < 0 then 45 # showNat (nat (- i)) else showNat (nat i))"

datatype jsvalue = JString jsstring | JNumber jsnumber

text \<open>
  \<^verbatim>\<open>noteNames[noteIndex] + octave\<close>: a name and a number concatenate to a string;
  \<^verbatim>\<open>undefined\<close> and a number add to \<^verbatim>\<open>NaN\<close>.
\<close>

definition midiNoteToPitch :: "int \<Rightarrow> jsvalue" where
  "midiNoteToPitch m =
     (let oct = m div 12 - 1;
          noteIndex = jsRem m 12
      in case arrayGet noteNames noteIndex of
           Some name \<Rightarrow> JString (name @ showInt oct)
         | None \<Rightarrow> JNumber NaN)"

text \<open>
  The options object handed to \<^verbatim>\<open>new MidiWriter.NoteEvent\<close> (the library itself is
  outside the repository). The local \<^verbatim>\<open>currentTime\<close> of \<^verbatim>\<open>convertNotesToEvents\<close> is
  written and never read.
\<close>

record NoteEvent =
  pitch :: jsvalue
  eventDuration :: jsstring
  velocity :: nat
  channel :: nat

definition convertNotesToEvents :: "Note list \<Rightarrow> Header \<Rightarrow> NoteEvent list" where
  "convertNotesToEvents notes hdr =
     map (\<lambda>n. \<lparr>pitch = midiNoteToPitch (midiNote n),
               eventDuration = ticksOf (duration n),
               velocity = 100, channel = 0\<rparr>) notes"

subsection \<open>\<^verbatim>\<open>validateMidiNotes\<close>\<close>

text \<open>
  The two messages of \<^verbatim>\<open>validateMidiNotes\<close>, each with the values it interpolates:
  \<open>MidiOutOfRange k m\<close> is \<^verbatim>\<open>`Nota ${k}: MIDI note ${m} fuera de rango (0-127)`\<close> and
  \<open>InvalidDuration k d\<close> is \<^verbatim>\<open>`Nota ${k}: Duracion invalida ${d}`\<close>.
\<close>

datatype midiError = MidiOutOfRange nat int | InvalidDuration nat rat

text \<open>The \<^verbatim>\<open>forEach\<close> with its index; \<open>errs\<close> is the array being pushed to.\<close>

fun validateLoop :: "nat \<Rightarrow> Note list \<Rightarrow> midiError list \<Rightarrow> midiError list" where
  "validateLoop index [] errs = errs"
| "validateLoop index (n # ns) errs =
     (let e1 = (if midiNote n < 0 \<or> midiNote n > 127
                then errs @ [MidiOutOfRange (index + 1) (midiNote n)] else errs);
          e2 = (if duration n \<le> 0
                then e1 @ [InvalidDuration (index + 1) (duration n)] else e1)
      in validateLoop (index + 1) ns e2)"

definition validateMidiNotes :: "Note list \<Rightarrow> midiError ValidationResult" where
  "validateMidiNotes notes =
     (let errs = validateLoop 0 notes []
      in \<lparr>isValid = (length errs = 0), errors = errs\<rparr>)"

section \<open>Notions used in the statements\<close>

subsection \<open>The header block, in the words of the specification\<close>

text \<open>
  A line on which the header scan goes on: after trimming it starts with one of the six
  field tags, or it is blank, or it starts with \<^verbatim>\<open>V:\<close> or \<^verbatim>\<open>I:\<close>.
\<close>

definition isHeaderLine :: "jsstring \<Rightarrow> bool" where
  "isHeaderLine l =
     (startsWith (trim l) (str ''X:'') \<or> startsWith (trim l) (str ''T:'')
      \<or> startsWith (trim l) (str ''K:'') \<or> startsWith (trim l) (str ''M:'')
      \<or> startsWith (trim l) (str ''Q:'') \<or> startsWith (trim l) (str ''L:'')
      \<or> trim l = [] \<or> startsWith (trim l) (str ''V:'') \<or> startsWith (trim l) (str ''I:''))"

text \<open>The header block of a list of lines: its longest prefix of header lines.\<close>

definition headerBlock :: "jsstring list \<Rightarrow> jsstring list" where
  "headerBlock lines = takeWhile isHeaderLine lines"

text \<open>The values given to a tag by the lines of a block, in order: the text after the tag.\<close>

definition tagValues :: "jsstring \<Rightarrow> jsstring list \<Rightarrow> jsstring list" where
  "tagValues tag block =
     map (\<lambda>l. substring (trim l) 2) (filter (\<lambda>l. startsWith (trim l) tag) block)"

text \<open>The field of a tag: its default when no line has the tag, else what its last line gives.\<close>

definition fieldOf :: "'a \<Rightarrow> (jsstring \<Rightarrow> 'a) \<Rightarrow> jsstring list \<Rightarrow> 'a" where
  "fieldOf dflt f values = (if values = [] then dflt else f (last values))"

subsection \<open>Tags and the note section, in the words of the specification\<close>

text \<open>A tag is present in a text when one of its lines, trimmed, starts with it.\<close>

definition hasTag :: "jsstring \<Rightarrow> jsstring \<Rightarrow> bool" where
  "hasTag tag abcString = list_ex (\<lambda>l. startsWith (trim l) tag) (split 10 abcString)"





subsection \<open>Parts of the source functions\<close>

text \<open>What the loop body assigns for a trimmed header line \<open>t\<close>.\<close>

definition applyHeaderLine :: "jsstring \<Rightarrow> Header \<Rightarrow> Header" where
  "applyHeaderLine t h =
     (if startsWith t (str ''X:'') then h\<lparr>number := Some (parseInt (substring t 2))\<rparr>
      else if startsWith t (str ''T:'') then h\<lparr>title := substring t 2\<rparr>
      else if startsWith t (str ''K:'') then h\<lparr>key := substring t 2\<rparr>
      else if startsWith t (str ''M:'') then h\<lparr>meter := substring t 2\<rparr>
      else if startsWith t (str ''Q:'') then h\<lparr>tempo := parseTempo (substring t 2)\<rparr>
      else if startsWith t (str ''L:'') then h\<lparr>defaultLength := Some (substring t 2)\<rparr>
      else h)"

text \<open>The fourth group of a match: the captured digits.\<close>

definition capturedDuration :: "noteMatch \<Rightarrow> jsstring" where
  "capturedDuration m = (case m of (letter, acc, oct, dur) \<Rightarrow> dur)"



subsection \<open>Inputs used as examples\<close>

text \<open>The scale of the end-to-end scenario, \<^verbatim>\<open>"X:1\nT:Test Escala\nM:4/4\nK:C\nCDEFGABc"\<close>.\<close>

definition scaleInput :: jsstring where
  "scaleInput = str ''X:1'' @ [10] @ str ''T:Test Escala'' @ [10] @ str ''M:4/4'' @ [10]
     @ str ''K:C'' @ [10] @ str ''CDEFGABc''"


section \<open>Evaluation on concrete inputs\<close>

lemma showNat_digit: "n < 10 \<Longrightarrow> showNat n = [48 + n]"
  by (subst showNat.simps) simp

lemma showNat_more: "10 \<le> n \<Longrightarrow> showNat n = showNat (n div 10) @ [48 + n mod 10]"
  by (subst showNat.simps) simp

lemmas parse_eval = parse_def parseHeader_def parseBody_def noteOfMatch_def noteToMidi_def
  toUpperCase_def str_def trim_def isWhiteSpace_def startsWith_def substring_def
  isNoteLetter_def isOctaveMark_def isDigit_def digitsValue_def Let_def initialHeader_def
  parseFloat_def roundToDouble_def

lemmas validate_eval = validate_def noteSection_def isNoteSectionLine_def isAllowedChar_def
  newSet_def msgEmpty_def msgNoNotes_def msgMissingKey_def msgMissingMeter_def msgInvalidChars_def
  str_def trim_def isWhiteSpace_def startsWith_def isNoteLetter_def isDigit_def Let_def

section \<open>Properties of the parser\<close>

subsection \<open>The header loop\<close>

lemma headerLoop_Cons:
  "headerLoop i (l # ls) h =
     (if isHeaderLine l then headerLoop (i + 1) ls (applyHeaderLine (trim l) h)
      else h\<lparr>lineCount := i\<rparr>)"
  by (simp add: Let_def isHeaderLine_def applyHeaderLine_def)

lemma headerBlock_Cons:
  "headerBlock (l # ls) = (if isHeaderLine l then l # headerBlock ls else [])"
  by (simp add: headerBlock_def)

lemma tagValues_Cons:
  "tagValues tag (l # b) =
     (if startsWith (trim l) tag then substring (trim l) 2 # tagValues tag b
      else tagValues tag b)"
  by (simp add: tagValues_def)

lemma fieldOf_Cons: "fieldOf d f (v # vs) = fieldOf (f v) f vs"
  by (simp add: fieldOf_def)

lemma headerLoop_field:
  assumes upd: "\<And>t h. get (applyHeaderLine t h) =
                  (if startsWith t tag then f (substring t 2) else get h)"
    and lc: "\<And>h i. get (h\<lparr>lineCount := i\<rparr>) = get h"
  shows "get (headerLoop i ls h) = fieldOf (get h) f (tagValues tag (headerBlock ls))"
proof (induction ls arbitrary: i h)
  case Nil
  show ?case by (simp add: headerBlock_def tagValues_def fieldOf_def)
next
  case (Cons l ls)
  show ?case
  proof (cases "isHeaderLine l")
    case True
    then have "get (headerLoop i (l # ls) h)
        = fieldOf (get (applyHeaderLine (trim l) h)) f (tagValues tag (headerBlock ls))"
      by (simp only: headerLoop_Cons if_True Cons.IH)
    also have "\<dots> = fieldOf (get h) f (tagValues tag (headerBlock (l # ls)))"
      using True by (simp add: upd headerBlock_Cons tagValues_Cons fieldOf_Cons)
    finally show ?thesis .
  next
    case False
    then show ?thesis
      by (simp add: headerLoop_Cons headerBlock_Cons lc tagValues_def fieldOf_def
          del: headerLoop.simps)
  qed
qed

lemma apply_title:
  "title (applyHeaderLine t h) =
     (if startsWith t (str ''T:'') then substring t 2 else title h)"
  by (auto simp: applyHeaderLine_def startsWith_def str_def)

lemma apply_key:
  "key (applyHeaderLine t h) =
     (if startsWith t (str ''K:'') then substring t 2 else key h)"
  by (auto simp: applyHeaderLine_def startsWith_def str_def)

lemma apply_meter:
  "meter (applyHeaderLine t h) =
     (if startsWith t (str ''M:'') then substring t 2 else meter h)"
  by (auto simp: applyHeaderLine_def startsWith_def str_def)

lemma apply_tempo:
  "tempo (applyHeaderLine t h) =
     (if startsWith t (str ''Q:'') then parseTempo (substring t 2) else tempo h)"
  by (auto simp: applyHeaderLine_def startsWith_def str_def)

lemma apply_number:
  "number (applyHeaderLine t h) =
     (if startsWith t (str ''X:'') then Some (parseInt (substring t 2)) else number h)"
  by (auto simp: applyHeaderLine_def startsWith_def str_def)

lemma apply_defaultLength:
  "defaultLength (applyHeaderLine t h) =
     (if startsWith t (str ''L:'') then Some (substring t 2) else defaultLength h)"
  by (auto simp: applyHeaderLine_def startsWith_def str_def)

text \<open>
  Claim C9. For every list of lines, each field of the header that \<open>parseHeader\<close>
  builds is determined by the lines of the header block that carry its tag, and by
  nothing else: \<^verbatim>\<open>T:\<close> gives the title, \<^verbatim>\<open>K:\<close> the key, \<^verbatim>\<open>M:\<close> the meter, \<^verbatim>\<open>Q:\<close>
  the tempo (through \<open>parseTempo\<close>), \<^verbatim>\<open>X:\<close> the number (through \<open>parseInt\<close>) and
  \<^verbatim>\<open>L:\<close> the default length; the last line with the tag counts. A field whose tag is
  absent from the block keeps its default: title \<^verbatim>\<open>Untitled\<close>, key \<^verbatim>\<open>C\<close>, meter
  \<^verbatim>\<open>4/4\<close>, tempo 120, and no number and no default length. Each field has its own
  equation, so a missing \<^verbatim>\<open>K:\<close> or \<^verbatim>\<open>M:\<close> changes nothing else, and the header is
  built for every input.
\<close>

theorem C9_parseHeader:
  "title (parseHeader lines) =
     fieldOf (str ''Untitled'') (\<lambda>v. v) (tagValues (str ''T:'') (headerBlock lines))
   \<and> key (parseHeader lines) =
     fieldOf (str ''C'') (\<lambda>v. v) (tagValues (str ''K:'') (headerBlock lines))
   \<and> meter (parseHeader lines) =
     fieldOf (str ''4/4'') (\<lambda>v. v) (tagValues (str ''M:'') (headerBlock lines))
   \<and> tempo (parseHeader lines) =
     fieldOf (Num 120) parseTempo (tagValues (str ''Q:'') (headerBlock lines))
   \<and> number (parseHeader lines) =
     fieldOf None (\<lambda>v. Some (parseInt v)) (tagValues (str ''X:'') (headerBlock lines))
   \<and> defaultLength (parseHeader lines) =
     fieldOf None Some (tagValues (str ''L:'') (headerBlock lines))"
proof -
  have t: "title (parseHeader lines) =
      fieldOf (title initialHeader) (\<lambda>v. v) (tagValues (str ''T:'') (headerBlock lines))"
    unfolding parseHeader_def by (rule headerLoop_field) (simp_all add: apply_title)
  have k: "key (parseHeader lines) =
      fieldOf (key initialHeader) (\<lambda>v. v) (tagValues (str ''K:'') (headerBlock lines))"
    unfolding parseHeader_def by (rule headerLoop_field) (simp_all add: apply_key)
  have m: "meter (parseHeader lines) =
      fieldOf (meter initialHeader) (\<lambda>v. v) (tagValues (str ''M:'') (headerBlock lines))"
    unfolding parseHeader_def by (rule headerLoop_field) (simp_all add: apply_meter)
  have q: "tempo (parseHeader lines) =
      fieldOf (tempo initialHeader) parseTempo (tagValues (str ''Q:'') (headerBlock lines))"
    unfolding parseHeader_def by (rule headerLoop_field) (simp_all add: apply_tempo)
  have x: "number (parseHeader lines) =
      fieldOf (number initialHeader) (\<lambda>v. Some (parseInt v)) (tagValues (str ''X:'') (headerBlock lines))"
    unfolding parseHeader_def by (rule headerLoop_field) (simp_all add: apply_number)
  have l: "defaultLength (parseHeader lines) =
      fieldOf (defaultLength initialHeader) Some (tagValues (str ''L:'') (headerBlock lines))"
    unfolding parseHeader_def by (rule headerLoop_field) (simp_all add: apply_defaultLength)
  from t k m q x l show ?thesis
    by (simp add: initialHeader_def)
qed

text \<open>
  A witness: a block with a title, a tempo and an indented key, ended by a line of
  notes. Title, tempo and key come from their lines; meter, number and default length
  keep their defaults.
\<close>

theorem C9_parseHeader_witness:
  "title (parseHeader [str ''T:Song'', str ''Q:1/4=90'', str '' K:G'', str ''CDE'']) = str ''Song''
   \<and> key (parseHeader [str ''T:Song'', str ''Q:1/4=90'', str '' K:G'', str ''CDE'']) = str ''G''
   \<and> meter (parseHeader [str ''T:Song'', str ''Q:1/4=90'', str '' K:G'', str ''CDE'']) = str ''4/4''
   \<and> tempo (parseHeader [str ''T:Song'', str ''Q:1/4=90'', str '' K:G'', str ''CDE'']) = Num 90
   \<and> number (parseHeader [str ''T:Song'', str ''Q:1/4=90'', str '' K:G'', str ''CDE'']) = None
   \<and> defaultLength (parseHeader [str ''T:Song'', str ''Q:1/4=90'', str '' K:G'', str ''CDE'']) = None"
  using C9_parseHeader [of "[str ''T:Song'', str ''Q:1/4=90'', str '' K:G'', str ''CDE'']"]
  by (simp add: headerBlock_def isHeaderLine_def tagValues_def fieldOf_def str_def trim_def
      isWhiteSpace_def startsWith_def substring_def parseTempo_def tempoMatchAt_def
      parseInt_def parseDigits_def isDigit_def digitsValue_def roundToDouble_def Let_def)

subsection \<open>The boundary between header and body\<close>

lemma lineCount_apply: "lineCount (applyHeaderLine t h) = lineCount h"
  by (simp add: applyHeaderLine_def)

lemma headerLoop_lineCount:
  "lineCount (headerLoop i ls h) =
     (if list_all isHeaderLine ls then lineCount h else i + length (headerBlock ls))"
proof (induction ls arbitrary: i h)
  case Nil
  show ?case by simp
next
  case (Cons l ls)
  show ?case
    by (simp add: headerLoop_Cons headerBlock_Cons Cons.IH lineCount_apply del: headerLoop.simps)
qed

lemma parseHeader_lineCount:
  "lineCount (parseHeader lines) =
     (if list_all isHeaderLine lines then 0 else length (headerBlock lines))"
  by (simp add: parseHeader_def headerLoop_lineCount initialHeader_def)

lemma parse_body_split:
  "body (parse s) =
     (if list_all isHeaderLine (split 10 (trim s)) then parseBody (split 10 (trim s))
      else parseBody (dropWhile isHeaderLine (split 10 (trim s))))"
  by (simp add: parse_def Let_def parseHeader_lineCount headerBlock_def dropWhile_eq_drop)

text \<open>
  Claim C5 fails on the code when no line ends the header. For the input \<^verbatim>\<open>K:C\<close>
  the loop of \<open>parseHeader\<close> runs off the end of the lines without the assignment to
  \<open>lineCount\<close>, which stays 0, and the body is read from all the lines: the key letter
  of the header line becomes a note. (\<open>parse_body_split\<close> is the general statement:
  when a line ends the header the body is read from that line on, and otherwise from
  every line.)
\<close>

theorem C5_header_only_input:
  "list_all isHeaderLine (split 10 (trim (str ''K:C'')))
   \<and> key (header (parse (str ''K:C''))) = str ''C''
   \<and> lineCount (header (parse (str ''K:C''))) = 0
   \<and> body (parse (str ''K:C'')) =
     [\<lparr>note = str ''C'', midiNote = 60, duration = 1, accidental = [], octave = 4\<rparr>]"
  by (simp add: parse_eval isHeaderLine_def)

subsection \<open>The note pattern\<close>

text \<open>
  Claim C1 fails on the code. On the scale of the end-to-end scenario the header has
  the title \<^verbatim>\<open>Test Escala\<close>, the key \<^verbatim>\<open>C\<close> and the tempo 120, and \<open>validate\<close>
  accepts the text, but the body has one note, not eight: after the letter \<^verbatim>\<open>C\<close> the
  second group of the pattern takes the seven letters that follow.
\<close>

theorem C1_scale_has_one_note:
  "body (parse scaleInput) =
     [\<lparr>note = str ''C'', midiNote = 60, duration = 1, accidental = str ''DEFGABc'', octave = 4\<rparr>]
   \<and> length (body (parse scaleInput)) = 1
   \<and> title (header (parse scaleInput)) = str ''Test Escala''
   \<and> key (header (parse scaleInput)) = str ''C''
   \<and> tempo (header (parse scaleInput)) = Num 120
   \<and> lineCount (header (parse scaleInput)) = 4
   \<and> isValid (validate scaleInput)"
  by (simp add: scaleInput_def parse_eval parseInt_def parseDigits_def validate_eval)

text \<open>
  Claim C2 fails on the code. In \<^verbatim>\<open>C2\<close> the digit is taken by the second group, the
  fourth group is empty and the duration is 1. Digits reach the fourth group only after
  a comma or an apostrophe, as in \<^verbatim>\<open>C,2\<close>.
\<close>

theorem C2_letter_digit_has_duration_one:
  "body (parse (str ''C2'')) =
     [\<lparr>note = str ''C'', midiNote = 60, duration = 1, accidental = str ''2'', octave = 4\<rparr>]
   \<and> map duration (body (parse (str ''C,2''))) = [2]"
  by (simp add: parse_eval)


subsection \<open>Numbers read from digits\<close>

lemma bitLength_lower: "n \<noteq> 0 \<Longrightarrow> 2 ^ (bitLength n - 1) \<le> n"
proof (induction n rule: bitLength.induct)
  case (1 n)
  show ?case
  proof (cases "n div 2 = 0")
    case True
    with 1 have "n = 1" by auto
    then show ?thesis
      by (simp add: bitLength.simps [of "Suc 0"] bitLength.simps [of 0])
  next
    case False
    with 1 have ih: "2 ^ (bitLength (n div 2) - 1) \<le> n div 2" by simp
    from False have pos: "bitLength (n div 2) \<noteq> 0"
      by (simp add: bitLength.simps [of "n div 2"])
    have "bitLength n - 1 = Suc (bitLength (n div 2) - 1)"
      using 1 pos by (simp add: bitLength.simps [of n])
    then have "(2::nat) ^ (bitLength n - 1) = 2 * 2 ^ (bitLength (n div 2) - 1)"
      by simp
    also have "\<dots> \<le> 2 * (n div 2)"
      using ih by simp
    also have "\<dots> \<le> n"
      by simp
    finally show ?thesis .
  qed
qed

lemma roundToDouble_small: "n < 9007199254740992 \<Longrightarrow> roundToDouble n = Some n"
  by (simp add: roundToDouble_def)

lemma roundToDouble_zero: "roundToDouble n = Some w \<Longrightarrow> w = 0 \<longleftrightarrow> n = 0"
proof (cases "n < 9007199254740992")
  case True
  assume "roundToDouble n = Some w"
  with True show ?thesis by (simp add: roundToDouble_def)
next
  case False
  assume r: "roundToDouble n = Some w"
  from False have n: "n \<noteq> 0" by simp
  define e where "e = bitLength n - 53"
  have "(2::nat) ^ e \<le> 2 ^ (bitLength n - 1)"
    unfolding e_def by (rule power_increasing) simp_all
  also have "\<dots> \<le> n"
    using n by (rule bitLength_lower)
  finally have "1 \<le> n div 2 ^ e"
    by (simp add: div_greater_zero_iff Suc_le_eq)
  then have "w \<noteq> 0"
    using r False by (auto simp: roundToDouble_def Let_def e_def split: if_splits)
  with n show ?thesis by simp
qed

lemma roundToDouble_examples:
  "roundToDouble 9007199254740993 = Some 9007199254740992"
  "roundToDouble 9007199254740995 = Some 9007199254740996"
  "roundToDouble 9007199254740994 = Some 9007199254740994"
  by (simp_all add: roundToDouble_def bitLength.simps Let_def)

lemma roundToDouble_None: "roundToDouble n = None \<Longrightarrow> n \<noteq> 0"
  by (cases "n < 9007199254740992") (simp_all add: roundToDouble_small)

lemma bitLength_upper: "n < 2 ^ bitLength n"
proof (induction n rule: bitLength.induct)
  case (1 n)
  show ?case
  proof (cases "n = 0")
    case True
    then show ?thesis by simp
  next
    case False
    with 1 have "n div 2 < 2 ^ bitLength (n div 2)" by simp
    then have "n < 2 * 2 ^ bitLength (n div 2)" by linarith
    with False show ?thesis
      by (simp add: bitLength.simps [of n])
  qed
qed

lemma roundToDouble_huge:
  assumes "2 ^ 1024 \<le> n"
  shows "roundToDouble n = None"
proof -
  define e where "e = bitLength n - 53"
  from assms have big: "\<not> n < 9007199254740992"
    by simp
  have "(2::nat) ^ 1024 \<le> n" by (rule assms)
  also have "n < 2 ^ bitLength n" by (rule bitLength_upper)
  finally have "(2::nat) ^ 1024 < 2 ^ bitLength n" .
  then have bl: "1024 < bitLength n"
    by (rule power_less_imp_less_exp [rotated]) simp
  then have e: "bitLength n = e + 53" "972 \<le> e"
    by (simp_all add: e_def)
  from big have "n \<noteq> 0" by auto
  then have low: "2 ^ (bitLength n - 1) \<le> n" by (rule bitLength_lower)
  from e have eq: "bitLength n - 1 = 52 + e" by arith
  have "(2::nat) ^ 52 * 2 ^ e = 2 ^ (bitLength n - 1)"
    unfolding eq by (rule power_add [symmetric])
  with low have "(2::nat) ^ 52 * 2 ^ e \<le> n" by (simp only:)
  then have q: "2 ^ 52 \<le> n div 2 ^ e"
    by (simp add: less_eq_div_iff_mult_less_eq)
  have "(2::nat) ^ 1024 = 2 ^ 52 * 2 ^ 972"
    by simp
  also have "\<dots> \<le> (n div 2 ^ e) * 2 ^ e"
    using q e(2) by (intro mult_le_mono power_increasing) simp_all
  finally have v: "2 ^ 1024 \<le> (n div 2 ^ e) * 2 ^ e" .
  then have v': "2 ^ 1024 \<le> (n div 2 ^ e + 1) * 2 ^ e"
    by (simp add: add_mult_distrib)
  from big v v' show ?thesis
    by (simp add: roundToDouble_def Let_def e_def [symmetric] not_less)
qed

lemma parseFloat_nonneg: "0 \<le> parseFloat ds"
  by (simp add: parseFloat_def jsInfinity_def split: option.split)

lemma parseFloat_zero: "parseFloat ds = 0 \<longleftrightarrow> digitsValue ds = 0"
  by (auto simp: parseFloat_def jsInfinity_def roundToDouble_zero dest: roundToDouble_None
      split: option.split)

lemma parseFloat_huge: "2 ^ 1024 \<le> digitsValue ds \<Longrightarrow> parseFloat ds = jsInfinity"
  by (simp add: parseFloat_def roundToDouble_huge)

text \<open>An \<^verbatim>\<open>X:\<close> value of \<open>2^53 + 1\<close> is stored as \<open>2^53\<close>.\<close>

lemma parseInt_rounds:
  "parseInt (str ''9007199254740993'') = Num 9007199254740992"
  by (simp add: parseInt_def parseDigits_def roundToDouble_def bitLength.simps str_def
      startsWith_def isWhiteSpace_def isDigit_def digitsValue_def Let_def)

subsection \<open>Durations\<close>

lemma notePatternExec_digits:
  "m \<in> set (notePatternExec s) \<Longrightarrow> \<forall>c\<in>set (capturedDuration m). isDigit c"
proof (induction s rule: notePatternExec.induct)
  case 1
  then show ?case by simp
next
  case (2 c cs)
  show ?case
  proof (cases "isNoteLetter c")
    case True
    with 2 show ?thesis
      by (auto simp: capturedDuration_def dest: set_takeWhileD)
  next
    case False
    with 2 show ?thesis by simp
  qed
qed

lemma foldl_digits_zero:
  "\<forall>c\<in>set d. isDigit c \<Longrightarrow>
     foldl (\<lambda>a c. 10 * a + (c - 48)) a d = 0 \<longleftrightarrow> a = 0 \<and> (\<forall>c\<in>set d. c = 48)"
proof (induction d arbitrary: a)
  case Nil
  then show ?case by simp
next
  case (Cons c d)
  then have "48 \<le> c" by (simp add: isDigit_def)
  then have "10 * a + (c - 48) = 0 \<longleftrightarrow> a = 0 \<and> c = 48" by auto
  with Cons show ?case by auto
qed

lemma digitsValue_zero:
  "\<forall>c\<in>set d. isDigit c \<Longrightarrow> digitsValue d = 0 \<longleftrightarrow> (\<forall>c\<in>set d. c = 48)"
  by (simp add: digitsValue_def foldl_digits_zero)

lemma duration_noteOfMatch:
  "duration (noteOfMatch m) =
     (if capturedDuration m \<noteq> [] then parseFloat (capturedDuration m) else 1)"
  by (cases m) (simp add: noteOfMatch_def capturedDuration_def Let_def)

lemma body_parse:
  "body (parse s) = map noteOfMatch (notePatternExec
     (join (str '' '') (drop (lineCount (header (parse s))) (split 10 (trim s)))))"
  by (simp add: parse_def parseBody_def Let_def)

text \<open>A duration of more than 53 bits is rounded: the digits after \<^verbatim>\<open>C,\<close> are \<open>2^53 + 1\<close>.\<close>

lemma parse_rounds_duration:
  "map duration (body (parse (str ''C,9007199254740993''))) = [9007199254740992]"
  by (simp add: parse_eval bitLength.simps)

text \<open>
  Claim C4, as the code has it. The body of \<open>parse\<close> is the list of the notes of the
  matches of the note pattern. Every note has a duration that is not negative. It is 1
  when the match captured no digit, and it is 0 exactly when digits were captured and
  all of them are zeros.
\<close>

theorem C4_duration:
  "body (parse s) = map noteOfMatch (notePatternExec
     (join (str '' '') (drop (lineCount (header (parse s))) (split 10 (trim s)))))
   \<and> (n \<in> set (body (parse s)) \<longrightarrow> 0 \<le> duration n)
   \<and> (m \<in> set (notePatternExec t) \<longrightarrow>
        (capturedDuration m = [] \<longrightarrow> duration (noteOfMatch m) = 1)
      \<and> (duration (noteOfMatch m) = 0 \<longleftrightarrow>
           capturedDuration m \<noteq> [] \<and> (\<forall>c\<in>set (capturedDuration m). c = 48)))"
proof (intro conjI impI)
  show "body (parse s) = map noteOfMatch (notePatternExec
     (join (str '' '') (drop (lineCount (header (parse s))) (split 10 (trim s)))))"
    by (rule body_parse)
next
  assume "n \<in> set (body (parse s))"
  then obtain m where "n = noteOfMatch m"
    unfolding body_parse by auto
  then show "0 \<le> duration n"
    by (simp add: duration_noteOfMatch parseFloat_nonneg)
next
  assume "m \<in> set (notePatternExec t)" "capturedDuration m = []"
  then show "duration (noteOfMatch m) = 1"
    by (simp add: duration_noteOfMatch)
next
  assume m: "m \<in> set (notePatternExec t)"
  show "duration (noteOfMatch m) = 0 \<longleftrightarrow>
           capturedDuration m \<noteq> [] \<and> (\<forall>c\<in>set (capturedDuration m). c = 48)"
    using digitsValue_zero [OF notePatternExec_digits [OF m]]
    by (simp add: duration_noteOfMatch parseFloat_zero)
qed

text \<open>
  A witness: \<^verbatim>\<open>C,0\<close> has one match, with the digits \<^verbatim>\<open>0\<close>, and its note has duration
  0; \<^verbatim>\<open>C\<close> has one match, with no digits, and its note has duration 1.
\<close>

theorem C4_duration_witness:
  "\<lparr>note = str ''C'', midiNote = 48, duration = 0, accidental = [], octave = 3\<rparr>
     \<in> set (body (parse (str ''C,0'')))
   \<and> (67, [], str '','', str ''0'') \<in> set (notePatternExec (str ''C,0''))
   \<and> capturedDuration (67, [], str '','', str ''0'') \<noteq> []
   \<and> duration (noteOfMatch (67, [], str '','', str ''0'')) = 0
   \<and> (67, [], [], []) \<in> set (notePatternExec (str ''C''))
   \<and> capturedDuration (67, [], [], []) = []
   \<and> duration (noteOfMatch (67, [], [], [])) = 1"
proof -
  have n: "\<lparr>note = str ''C'', midiNote = 48, duration = 0, accidental = [], octave = 3\<rparr>
     \<in> set (body (parse (str ''C,0'')))"
    by (simp add: parse_eval)
  have a: "(67, [], str '','', str ''0'') \<in> set (notePatternExec (str ''C,0''))"
    by (simp add: str_def isNoteLetter_def isOctaveMark_def isDigit_def)
  have b: "(67, [], [], []) \<in> set (notePatternExec (str ''C''))"
    by (simp add: str_def isNoteLetter_def isOctaveMark_def isDigit_def)
  from n a b
    C4_duration [of "str ''C,0''"
      "\<lparr>note = str ''C'', midiNote = 48, duration = 0, accidental = [], octave = 3\<rparr>"
      "(67, [], str '','', str ''0'')" "str ''C,0''"]
    C4_duration [of "str ''C,0''"
      "\<lparr>note = str ''C'', midiNote = 48, duration = 0, accidental = [], octave = 3\<rparr>"
      "(67, [], [], [])" "str ''C''"]
  show ?thesis
    by (simp add: capturedDuration_def str_def)
qed

text \<open>
  The claim as stated fails: the text \<^verbatim>\<open>C,0\<close> goes through the note pattern and gives
  one note, whose duration is 0.
\<close>

theorem C4_counterexample:
  "map duration (body (parse (str ''C,0''))) = [0]"
  by (simp add: parse_eval)

subsection \<open>\<^verbatim>\<open>validate\<close>\<close>




































text \<open>
  Outside the two conditions \<open>validate\<close> departs from the header scan of
  \<open>parseHeader\<close>: a \<^verbatim>\<open>V:\<close> line, which the scan skips as a header line, is reported
  for its characters, and \<^verbatim>\<open>K:\<close> inside a title hides that no line carries the key.
\<close>

lemma validate_outside_hypotheses:
  "errors (validate (str ''K:C'' @ [10] @ str ''M:4/4'' @ [10] @ str ''V:1'' @ [10] @ str ''CDE''))
     = [msgInvalidChars @ str ''V, :'']"
  "errors (validate (str ''T:OK: x'' @ [10] @ str ''M:4/4'' @ [10] @ str ''CDE'')) = []"
  "\<not> hasTag (str ''K:'') (str ''T:OK: x'' @ [10] @ str ''M:4/4'' @ [10] @ str ''CDE'')"
  by (simp_all add: validate_eval hasTag_def)

section \<open>Properties of the MIDI generator\<close>

subsection \<open>\<^verbatim>\<open>validateMidiNotes\<close>\<close>

lemma validateLoop_range:
  "MidiOutOfRange j m \<in> set (validateLoop k ns errs) \<longleftrightarrow>
     MidiOutOfRange j m \<in> set errs \<or>
     (\<exists>i<length ns. j = k + i + 1 \<and> m = midiNote (ns ! i) \<and> (m < 0 \<or> 127 < m))"
proof (induction ns arbitrary: k errs)
  case Nil
  then show ?case by simp
next
  case (Cons n ns)
  have ex: "(\<exists>i<length (n # ns). j = k + i + 1 \<and> m = midiNote ((n # ns) ! i) \<and> (m < 0 \<or> 127 < m))
        \<longleftrightarrow> (j = k + 1 \<and> m = midiNote n \<and> (m < 0 \<or> 127 < m))
          \<or> (\<exists>i<length ns. j = (k + 1) + i + 1 \<and> m = midiNote (ns ! i) \<and> (m < 0 \<or> 127 < m))"
    by (auto simp: less_Suc_eq_0_disj)
  show ?case
    unfolding ex by (auto simp: Cons.IH Let_def)
qed

lemma validateLoop_duration:
  "InvalidDuration j d \<in> set (validateLoop k ns errs) \<longleftrightarrow>
     InvalidDuration j d \<in> set errs \<or>
     (\<exists>i<length ns. j = k + i + 1 \<and> d = duration (ns ! i) \<and> d \<le> 0)"
proof (induction ns arbitrary: k errs)
  case Nil
  then show ?case by simp
next
  case (Cons n ns)
  have ex: "(\<exists>i<length (n # ns). j = k + i + 1 \<and> d = duration ((n # ns) ! i) \<and> d \<le> 0)
        \<longleftrightarrow> (j = k + 1 \<and> d = duration n \<and> d \<le> 0)
          \<or> (\<exists>i<length ns. j = (k + 1) + i + 1 \<and> d = duration (ns ! i) \<and> d \<le> 0)"
    by (auto simp: less_Suc_eq_0_disj)
  show ?case
    unfolding ex by (auto simp: Cons.IH Let_def)
qed

lemma validateLoop_empty:
  "validateLoop k ns errs = [] \<longleftrightarrow>
     errs = [] \<and> (\<forall>n\<in>set ns. 0 \<le> midiNote n \<and> midiNote n \<le> 127 \<and> 0 < duration n)"
  by (induction ns arbitrary: k errs) (auto simp: Let_def)

text \<open>
  Claim C7. For every list of notes, \<open>validateMidiNotes\<close> returns a result whose errors
  are exactly these: for the note at 0-based position \<open>i\<close>, a range error citing index
  \<open>i + 1\<close> when its MIDI number is below 0 or above 127, and a duration error citing
  index \<open>i + 1\<close> when its duration is at most 0. \<open>isValid\<close> holds if and only if no
  note has either defect, which is when the error list is empty. The function is total
  (it never aborts) and only reads the notes.
\<close>

theorem C7_validateMidiNotes:
  "(MidiOutOfRange j m \<in> set (errors (validateMidiNotes notes)) \<longleftrightarrow>
      (\<exists>i<length notes. j = i + 1 \<and> m = midiNote (notes ! i) \<and> (m < 0 \<or> 127 < m)))
   \<and> (InvalidDuration j d \<in> set (errors (validateMidiNotes notes)) \<longleftrightarrow>
      (\<exists>i<length notes. j = i + 1 \<and> d = duration (notes ! i) \<and> d \<le> 0))
   \<and> (isValid (validateMidiNotes notes) \<longleftrightarrow>
      (\<forall>n\<in>set notes. 0 \<le> midiNote n \<and> midiNote n \<le> 127 \<and> 0 < duration n))
   \<and> (isValid (validateMidiNotes notes) \<longleftrightarrow> errors (validateMidiNotes notes) = [])"
  by (simp add: validateMidiNotes_def Let_def validateLoop_range validateLoop_duration
      validateLoop_empty)

text \<open>
  A witness: a valid first note followed by a note with MIDI number 200 and duration 0.
  Both errors cite index 2 and the list is not valid.
\<close>

theorem C7_validateMidiNotes_witness:
  "MidiOutOfRange 2 200 \<in> set (errors (validateMidiNotes
       [\<lparr>note = str ''C'', midiNote = 60, duration = 1, accidental = [], octave = 4\<rparr>,
        \<lparr>note = str ''C'', midiNote = 200, duration = 0, accidental = [], octave = 4\<rparr>]))
   \<and> InvalidDuration 2 0 \<in> set (errors (validateMidiNotes
       [\<lparr>note = str ''C'', midiNote = 60, duration = 1, accidental = [], octave = 4\<rparr>,
        \<lparr>note = str ''C'', midiNote = 200, duration = 0, accidental = [], octave = 4\<rparr>]))
   \<and> \<not> isValid (validateMidiNotes
       [\<lparr>note = str ''C'', midiNote = 60, duration = 1, accidental = [], octave = 4\<rparr>,
        \<lparr>note = str ''C'', midiNote = 200, duration = 0, accidental = [], octave = 4\<rparr>])"
proof -
  let ?ns = "[\<lparr>note = str ''C'', midiNote = 60, duration = 1, accidental = [], octave = 4\<rparr>,
              \<lparr>note = str ''C'', midiNote = 200, duration = 0, accidental = [], octave = 4\<rparr>]"
  have idx: "\<exists>i<length ?ns. (2::nat) = i + 1 \<and> (200::int) = midiNote (?ns ! i) \<and> ((200::int) < 0 \<or> 127 < (200::int))"
    by (rule exI [of _ 1]) simp
  have idx2: "\<exists>i<length ?ns. (2::nat) = i + 1 \<and> (0::rat) = duration (?ns ! i) \<and> (0::rat) \<le> 0"
    by (rule exI [of _ 1]) simp
  have bad: "\<not> (\<forall>n\<in>set ?ns. 0 \<le> midiNote n \<and> midiNote n \<le> 127 \<and> 0 < duration n)"
    by simp
  from C7_validateMidiNotes [of 2 200 ?ns 0] idx idx2 bad
  show ?thesis
    by blast
qed

subsection \<open>The duration table\<close>

lemmas ticks_eval = ticksOf_def durationToTicks_def str_def

text \<open>
  Claim C8. The duration-to-tick mapping sends 0.25 to \<^verbatim>\<open>T32\<close> (the thirty-second
  class), 0.5 to \<^verbatim>\<open>T16\<close> (sixteenth), 1 to \<^verbatim>\<open>T8\<close> (eighth), 2 to \<^verbatim>\<open>T4\<close> (quarter),
  4 to \<^verbatim>\<open>T2\<close> (half) and 8 to \<^verbatim>\<open>T1\<close> (whole). Every value outside the table gets
  the token of the value 1, and \<open>convertNotesToEvents\<close> gives each event the token of
  its note's duration; there is no error value.
\<close>

theorem C8_duration_to_ticks:
  "ticksOf (1/4) = str ''T32'' \<and> ticksOf (1/2) = str ''T16'' \<and> ticksOf 1 = str ''T8''
   \<and> ticksOf 2 = str ''T4'' \<and> ticksOf 4 = str ''T2'' \<and> ticksOf 8 = str ''T1''
   \<and> (d \<notin> {1/4, 1/2, 1, 2, 4, 8} \<longrightarrow> ticksOf d = ticksOf 1)
   \<and> map eventDuration (convertNotesToEvents notes hdr) = map (\<lambda>n. ticksOf (duration n)) notes"
  by (simp add: ticks_eval convertNotesToEvents_def)

text \<open>A witness: the value 3 is not in the table and gets the token of the value 1.\<close>

theorem C8_duration_to_ticks_witness:
  "(3::rat) \<notin> {1/4, 1/2, 1, 2, 4, 8} \<and> ticksOf 3 = ticksOf 1 \<and> ticksOf 1 = str ''T8''"
  using C8_duration_to_ticks [of 3] by simp

subsection \<open>\<^verbatim>\<open>midiNoteToPitch\<close>\<close>

lemma jsRem_nonneg: "0 \<le> m \<Longrightarrow> jsRem m 12 = m mod 12"
  by (cases "m = 0") (simp_all add: jsRem_def)

lemma jsRem_neg: "m < 0 \<Longrightarrow> jsRem m 12 = - ((- m) mod 12)"
  by (simp add: jsRem_def)

lemma length_noteNames: "length noteNames = 12"
  by (simp add: noteNames_def)

text \<open>
  Claim C10, as the code has it. \<open>convertNotesToEvents\<close> applies \<open>midiNoteToPitch\<close> to the
  MIDI number of every note, with no range guard. For every MIDI number \<open>m \<ge> 0\<close> the
  pitch is the entry \<open>m mod 12\<close> of the twelve names followed by the octave
  \<open>m div 12 - 1\<close>. For a negative \<open>m\<close> that is not a multiple of 12 the index \<^verbatim>\<open>m % 12\<close>
  is negative, the lookup is outside the table and the result is \<^verbatim>\<open>NaN\<close>, not a pitch
  string; no error is raised. For a negative multiple of 12 the index is \<^verbatim>\<open>-0\<close>, which
  reads entry 0, and the result is \<^verbatim>\<open>C\<close> followed by the octave. \<open>parse\<close> can produce
  negative numbers: a D followed by six commas gives \<open>62 - 72 = -10\<close>.
\<close>

theorem C10_midiNoteToPitch:
  "(0 \<le> m \<longrightarrow> midiNoteToPitch m = JString (noteNames ! nat (m mod 12) @ showInt (m div 12 - 1)))
   \<and> (m < 0 \<and> \<not> 12 dvd m \<longrightarrow> midiNoteToPitch m = JNumber NaN)
   \<and> (m < 0 \<and> 12 dvd m \<longrightarrow> midiNoteToPitch m = JString (str ''C'' @ showInt (m div 12 - 1)))
   \<and> map pitch (convertNotesToEvents notes hdr) = map (\<lambda>n. midiNoteToPitch (midiNote n)) notes
   \<and> map midiNote (body (parse (str ''D,,,,,,''))) = [- 10]"
proof (intro conjI impI)
  assume "0 \<le> m"
  then show "midiNoteToPitch m = JString (noteNames ! nat (m mod 12) @ showInt (m div 12 - 1))"
    by (simp add: midiNoteToPitch_def jsRem_nonneg arrayGet_def length_noteNames)
next
  assume a: "m < 0 \<and> \<not> 12 dvd m"
  then have "(- m) mod 12 \<noteq> 0"
    by (simp add: dvd_eq_mod_eq_0 [symmetric])
  moreover have "0 \<le> (- m) mod 12"
    by simp
  ultimately have "- ((- m) mod 12) < 0"
    by linarith
  with a show "midiNoteToPitch m = JNumber NaN"
    by (simp add: midiNoteToPitch_def jsRem_neg arrayGet_def)
next
  assume a: "m < 0 \<and> 12 dvd m"
  then have "(- m) mod 12 = 0"
    by (simp add: dvd_eq_mod_eq_0 [symmetric])
  with a show "midiNoteToPitch m = JString (str ''C'' @ showInt (m div 12 - 1))"
    by (simp add: midiNoteToPitch_def jsRem_neg arrayGet_def noteNames_def)
next
  show "map pitch (convertNotesToEvents notes hdr) = map (\<lambda>n. midiNoteToPitch (midiNote n)) notes"
    by (simp add: convertNotesToEvents_def)
next
  show "map midiNote (body (parse (str ''D,,,,,,''))) = [- 10]"
    by (simp add: parse_eval)
qed

text \<open>
  A witness at the MIDI numbers 60, 69 and 0 (the pitches \<^verbatim>\<open>C4\<close>, \<^verbatim>\<open>A4\<close>, \<^verbatim>\<open>C-1\<close>), at
  \<open>-10\<close> (not a pitch) and at \<open>-24\<close> (the pitch \<^verbatim>\<open>C-3\<close>).
\<close>

theorem C10_midiNoteToPitch_witness:
  "midiNoteToPitch 60 = JString (str ''C4'') \<and> midiNoteToPitch 69 = JString (str ''A4'')
   \<and> midiNoteToPitch 0 = JString (str ''C-1'')
   \<and> midiNoteToPitch (- 10) = JNumber NaN
   \<and> midiNoteToPitch (- 24) = JString (str ''C-3'')"
  using C10_midiNoteToPitch [of 60] C10_midiNoteToPitch [of 69] C10_midiNoteToPitch [of 0]
    C10_midiNoteToPitch [of "- 10"] C10_midiNoteToPitch [of "- 24"]
  by (simp add: noteNames_def showInt_def showNat_digit str_def)

text \<open>
  The claim's own example fails: a C followed by six commas parses to the MIDI number
  \<open>-12\<close>, whose remainder is (minus) zero, so the lookup reads entry 0 of the table and
  the pitch is the string \<^verbatim>\<open>C-2\<close>.
\<close>

theorem C10_counterexample:
  "map midiNote (body (parse (str ''C,,,,,,''))) = [- 12]
   \<and> jsRem (- 12) 12 = 0
   \<and> midiNoteToPitch (- 12) = JString (str ''C-2'')"
  by (simp add: parse_eval midiNoteToPitch_def jsRem_def arrayGet_def noteNames_def
      showInt_def showNat_digit)

end
